theory Spec2Isabelle
  imports Main "HOL-Library.Word"
begin

section \<open>The Apteryx client library (apteryx.c)\<close>

text \<open>
  The development embeds the client side of the path:value store: the library's
  process-wide state, its public calls and the two dispatchers that serve inbound
  watch and provide invocations. Logging (the \<^verbatim>\<open>DEBUG\<close> and \<^verbatim>\<open>ERROR\<close>
  macros) writes to the terminal only and is left out. The \<^verbatim>\<open>assert\<close> calls are
  kept, with the meaning \<^verbatim>\<open>assert.h\<close> gives them when \<^verbatim>\<open>NDEBUG\<close> is not
  defined: a failed assertion ends the process, which is the value \<open>Aborted\<close>.

  Calls are taken one at a time. The library's mutex, and what two threads of one
  process could do to the globals between two statements of a call, are outside the
  model; so is a failed allocation.
\<close>

subsection \<open>Data\<close>

type_synonym byte = "8 word"
type_synonym bytes = "byte list"

text \<open>
  A C string is the list of its characters before the terminating NUL; indexing it at
  its length reads the NUL. \<open>path[0] != '/'\<close> is therefore true of the empty string.
\<close>

definition starts_with_slash :: "string \<Rightarrow> bool" where
  "starts_with_slash path = (case path of [] \<Rightarrow> False | c # _ \<Rightarrow> c = CHR ''/'')"

text \<open>\<open>path[strlen (path) - 1] == '/'\<close>, used by search on a non-empty string only.\<close>

definition ends_with_slash :: "string \<Rightarrow> bool" where
  "ends_with_slash path = (case rev path of [] \<Rightarrow> False | c # _ \<Rightarrow> c = CHR ''/'')"

text \<open>\<open>strstr (path, "//") != NULL\<close>.\<close>

fun has_double_slash :: "string \<Rightarrow> bool" where
  "has_double_slash [] = False"
| "has_double_slash [c] = False"
| "has_double_slash (c # d # cs) =
     ((c = CHR ''/'' \<and> d = CHR ''/'') \<or> has_double_slash (d # cs))"

text \<open>
  What a call leaves behind: a value, a process ended by a failed assertion, or (in
  \<open>atoi\<close> only) a read past the end of a buffer, which C leaves undefined.
\<close>

datatype 'a outcome = Aborted | Undefined | Returned 'a

text \<open>\<open>assert (!debug || c); k\<close> as written inside the library.\<close>

definition assert_unless_debug :: "bool \<Rightarrow> bool \<Rightarrow> 'a outcome \<Rightarrow> 'a outcome" where
  "assert_unless_debug dbg c k = (if \<not> dbg \<or> c then k else Aborted)"

subsection \<open>Process-wide state\<close>

text \<open>
  The globals of apteryx.c. \<open>ref_count\<close> is a C \<open>int\<close> (32 bits, compared signed;
  incrementing the largest value, which C leaves undefined, wraps round here);
  \<open>stopfd\<close> and \<open>client_thread\<close> use \<open>-1\<close> for "none", as the source does.
  \<open>listener_alive\<close> is the one component that is not a C variable: it records whether
  the thread made by \<open>pthread_create\<close> still exists.
\<close>

record client =
  debug :: bool
  ref_count :: "32 word"
  stopfd :: int
  client_thread :: int
  thread_running :: bool
  listener_alive :: bool

text \<open>
  What the operating system decides: the process id \<open>getpid\<close> returns (already
  widened to 64 bits, as it is sent), and for the thread calls the caller's own thread id,
  the id \<open>pthread_create\<close> stores, the descriptors \<open>pipe\<close> returns (or its failure),
  whether \<open>rpc_provide_service\<close> starts serving, and whether a signalled listener
  leaves by itself within the five seconds \<open>stop_client_thread\<close> waits.
\<close>

record os =
  pid :: "64 word"
  self_tid :: int
  spawn_tid :: int
  pipe_fds :: "(int \<times> int) option"
  service_starts :: bool
  exits_in_time :: bool

text \<open>The clean-up at the end of \<open>listen_thread_handler\<close>.\<close>

definition listener_cleanup :: "client \<Rightarrow> client" where
  "listener_cleanup st =
     st\<lparr>stopfd := -1, thread_running := False, client_thread := -1, listener_alive := False\<rparr>"

text \<open>
  \<open>listen_thread_handler\<close> up to the point where it blocks serving requests: a failed
  \<open>pipe\<close> returns at once (leaving \<open>client_thread\<close> as \<open>pthread_create\<close> set it), a
  service that does not start runs straight into the clean-up.
\<close>

definition listen_thread_handler :: "os \<Rightarrow> client \<Rightarrow> client" where
  "listen_thread_handler env st =
     (case pipe_fds env of
        None \<Rightarrow> st\<lparr>listener_alive := False\<rparr>
      | Some (rd, wr) \<Rightarrow>
          let st1 = st\<lparr>stopfd := wr, thread_running := True\<rparr>
          in if service_starts env then st1 else listener_cleanup st1)"

text \<open>
  \<open>start_client_thread\<close>: the new thread is taken to have run its prologue during the
  \<open>usleep (1000)\<close> that follows \<open>pthread_create\<close>.
\<close>

definition start_client_thread :: "os \<Rightarrow> client \<Rightarrow> client" where
  "start_client_thread env st =
     (if \<not> thread_running st
      then listen_thread_handler env
             (st\<lparr>client_thread := spawn_tid env, listener_alive := True\<rparr>)
      else st)"

text \<open>
  \<open>stop_client_thread\<close>: signal the listener through \<open>stopfd\<close> and wait; a listener
  that leaves in time runs its own clean-up, one that does not is cancelled and joined,
  which leaves \<open>stopfd\<close> and \<open>client_thread\<close> as they were.
\<close>

definition stop_client_thread :: "os \<Rightarrow> client \<Rightarrow> client" where
  "stop_client_thread env st =
     (if thread_running st \<and> client_thread st \<noteq> -1 \<and> client_thread st \<noteq> self_tid env
      then let st1 = st\<lparr>thread_running := False\<rparr>
           in if exits_in_time env then listener_cleanup st1
              else st1\<lparr>listener_alive := False\<rparr>
      else st)"

subsection \<open>init and shutdown\<close>

definition apteryx_init :: "bool \<Rightarrow> client \<Rightarrow> bool \<times> client" where
  "apteryx_init debug_enabled st =
     (True, st\<lparr>ref_count := ref_count st + 1, debug := (debug st \<or> debug_enabled)\<rparr>)"

definition apteryx_shutdown :: "os \<Rightarrow> client \<Rightarrow> bool \<times> client" where
  "apteryx_shutdown env st =
     (if ref_count st \<le>s 0 then (False, st)
      else let st1 = st\<lparr>ref_count := ref_count st - 1\<rparr>
           in if 0 <s ref_count st1 then (True, st1)
              else (True, (stop_client_thread env st1)\<lparr>thread_running := False\<rparr>))"

subsection \<open>Messages and the transport\<close>

text \<open>
  The protobuf messages, with the fields apteryx.c reads and writes. Function and user
  pointers travel as 64-bit integers (\<open>(uint64_t) (long) cb\<close>); on the LP64 targets
  the library is built for both casts keep every bit, so a pointer is modelled by the
  64-bit word it is sent as, and \<open>NULL\<close> is \<open>0\<close>.
\<close>

record Apteryx__Set =
  set_path :: string
  set_value :: bytes

record Apteryx__Watch =
  watch_path :: string
  watch_value :: bytes
  watch_id :: "64 word"
  watch_cb :: "64 word"
  watch_priv :: "64 word"

record Apteryx__Provide =
  provide_path :: string
  provide_id :: "64 word"
  provide_cb :: "64 word"
  provide_priv :: "64 word"

text \<open>
  What a generated stub does with the closure it is handed: never calls it (no response
  arrived), or calls it once, with \<open>NULL\<close> (\<open>None\<close>) or with the decoded result.
\<close>

datatype 'r closure_call = Not_called | Called "'r option"

text \<open>
  rpc.c and the generated stubs are not part of the sources, so they are parameters: a
  transport over a network state \<open>'n\<close> of any type. \<open>rpc_connect_service\<close> says
  whether a connection to the broker was made; each stub carries one request and says
  what happened to the closure. A call that leaves the network state as it was has
  performed no RPC.
\<close>

record 'n rpc =
  rpc_connect_service :: "'n \<Rightarrow> bool \<times> 'n"
  apteryx__server__set :: "Apteryx__Set \<Rightarrow> 'n \<Rightarrow> unit closure_call \<times> 'n"
  apteryx__server__get :: "string \<Rightarrow> 'n \<Rightarrow> bytes closure_call \<times> 'n"
  apteryx__server__search :: "string \<Rightarrow> 'n \<Rightarrow> string list closure_call \<times> 'n"
  apteryx__server__prune :: "string \<Rightarrow> 'n \<Rightarrow> unit closure_call \<times> 'n"
  apteryx__server__watch :: "Apteryx__Watch \<Rightarrow> 'n \<Rightarrow> unit closure_call \<times> 'n"
  apteryx__server__provide :: "Apteryx__Provide \<Rightarrow> 'n \<Rightarrow> unit closure_call \<times> 'n"

text \<open>Running a closure on its closure data, when the stub calls it.\<close>

fun run_closure :: "('r option \<Rightarrow> 'd \<Rightarrow> 'd) \<Rightarrow> 'r closure_call \<Rightarrow> 'd \<Rightarrow> 'd" where
  "run_closure h Not_called d = d"
| "run_closure h (Called r) d = h r d"

text \<open>\<open>handle_ok_response\<close> sets the flag whether or not the result is \<open>NULL\<close>.\<close>

definition handle_ok_response :: "unit option \<Rightarrow> bool \<Rightarrow> bool" where
  "handle_ok_response result is_done = True"

subsection \<open>prune and set\<close>

text \<open>
  Every call that talks to the broker has the same two halves: the check of the path,
  and the part under the comment \<open>/* IPC */\<close> (connect, send, look at the flag the
  closure sets). The second half is a definition of its own, \<open>prune_ipc\<close>,
  \<open>set_ipc\<close> and so on, so that what a check lets through can be named.
\<close>

definition prune_ipc :: "'n rpc \<Rightarrow> string \<Rightarrow> 'n \<Rightarrow> (bool \<times> 'n) outcome" where
  "prune_ipc net path n =
     (case rpc_connect_service net n of
        (False, n1) \<Rightarrow> Returned (False, n1)
      | (True, n1) \<Rightarrow>
          (case apteryx__server__prune net path n1 of
             (r, n2) \<Rightarrow>
               if \<not> run_closure handle_ok_response r False
               then Returned (False, n2)
               else Returned (True, n2)))"

definition apteryx_prune :: "'n rpc \<Rightarrow> client \<Rightarrow> string \<Rightarrow> 'n \<Rightarrow> (bool \<times> 'n) outcome" where
  "apteryx_prune net st path n =
     (if \<not> starts_with_slash path
      then assert_unless_debug (debug st) (starts_with_slash path) (Returned (False, n))
      else prune_ipc net path n)"

definition set_ipc :: "'n rpc \<Rightarrow> string \<Rightarrow> bytes \<Rightarrow> 'n \<Rightarrow> (bool \<times> 'n) outcome" where
  "set_ipc net path v n =
     (case rpc_connect_service net n of
        (False, n1) \<Rightarrow> Returned (False, n1)
      | (True, n1) \<Rightarrow>
          (case apteryx__server__set net \<lparr>set_path = path, set_value = v\<rparr> n1 of
             (r, n2) \<Rightarrow>
               if \<not> run_closure handle_ok_response r False
               then Returned (False, n2)
               else Returned (True, n2)))"

definition apteryx_set ::
  "'n rpc \<Rightarrow> client \<Rightarrow> string \<Rightarrow> bytes \<Rightarrow> 'n \<Rightarrow> (bool \<times> 'n) outcome" where
  "apteryx_set net st path v n =
     (if \<not> starts_with_slash path
      then assert_unless_debug (debug st) (starts_with_slash path) (Returned (False, n))
      else set_ipc net path v n)"

subsection \<open>get\<close>

text \<open>\<open>get_data_t\<close>; a \<open>NULL\<close> value pointer is \<open>None\<close>.\<close>

record get_data_t =
  gd_value :: "bytes option"
  gd_length :: nat
  gd_done :: bool

text \<open>
  \<open>handle_get_response\<close>: only a result of non-zero length is copied (\<open>malloc\<close> and
  \<open>memcpy\<close>; allocation failure is not modelled anywhere in this development).
\<close>

definition handle_get_response :: "bytes option \<Rightarrow> get_data_t \<Rightarrow> get_data_t" where
  "handle_get_response result data =
     (case result of
        None \<Rightarrow> data
      | Some v \<Rightarrow>
          if length v \<noteq> 0 then data\<lparr>gd_length := length v, gd_value := Some v\<rparr> else data)
     \<lparr>gd_done := True\<rparr>"

text \<open>
  \<open>apteryx_get\<close> writes through two out-parameters. The model takes what the caller's
  \<open>*value\<close> and \<open>*size\<close> held before the call and returns what they hold after it,
  next to the boolean result.
\<close>

definition get_ipc ::
  "'n rpc \<Rightarrow> string \<Rightarrow> 'n \<Rightarrow> (bool \<times> (bytes option \<times> nat) \<times> 'n) outcome" where
  "get_ipc net path n =
     (case rpc_connect_service net n of
        (False, n1) \<Rightarrow> Returned (False, (None, 0), n1)
      | (True, n1) \<Rightarrow>
          (case apteryx__server__get net path n1 of
             (r, n2) \<Rightarrow>
               let data = run_closure handle_get_response r
                            \<lparr>gd_value = None, gd_length = 0, gd_done = False\<rparr>
               in if \<not> gd_done data then Returned (False, (None, 0), n2)
                  else Returned (gd_value data \<noteq> None,
                                 (gd_value data, gd_length data), n2)))"

definition apteryx_get ::
  "'n rpc \<Rightarrow> client \<Rightarrow> string \<Rightarrow> bytes option \<times> nat \<Rightarrow> 'n
     \<Rightarrow> (bool \<times> (bytes option \<times> nat) \<times> 'n) outcome" where
  "apteryx_get net st path out n =
     (if \<not> starts_with_slash path
      then assert_unless_debug (debug st) (starts_with_slash path) (Returned (False, out, n))
      else get_ipc net path n)"

subsection \<open>search\<close>

text \<open>
  \<open>handle_search_response\<close> appends a copy of every returned path; the empty
  \<open>GList\<close> is \<open>NULL\<close>, so a \<open>NULL\<close> result, a \<open>NULL\<close> array and an array of
  length 0 all leave \<open>[]\<close>.
\<close>

fun g_list_append_all :: "string list \<Rightarrow> string list \<Rightarrow> string list" where
  "g_list_append_all acc [] = acc"
| "g_list_append_all acc (p # ps) = g_list_append_all (acc @ [p]) ps"

definition handle_search_response ::
  "string list option \<Rightarrow> string list \<times> bool \<Rightarrow> string list \<times> bool" where
  "handle_search_response result data =
     (case result of
        None \<Rightarrow> ([], True)
      | Some ps \<Rightarrow> (g_list_append_all [] ps, True))"

text \<open>
  The test that sends search and watch to the root: a \<open>NULL\<close> path or one of four
  strings.
\<close>

definition is_root_path :: "string option \<Rightarrow> bool" where
  "is_root_path path =
     (case path of
        None \<Rightarrow> True
      | Some p \<Rightarrow> p = ''/'' \<or> p = ''/*'' \<or> p = ''*'' \<or> length p = 0)"

definition search_ipc :: "'n rpc \<Rightarrow> string \<Rightarrow> 'n \<Rightarrow> (string list \<times> 'n) outcome" where
  "search_ipc net path n =
     (case rpc_connect_service net n of
        (False, n1) \<Rightarrow> Returned ([], n1)
      | (True, n1) \<Rightarrow>
          (case apteryx__server__search net path n1 of
             (r, n2) \<Rightarrow>
               let data = run_closure handle_search_response r ([], False)
               in if \<not> snd data then Returned ([], n2) else Returned (fst data, n2)))"

definition apteryx_search ::
  "'n rpc \<Rightarrow> client \<Rightarrow> string option \<Rightarrow> 'n \<Rightarrow> (string list \<times> 'n) outcome" where
  "apteryx_search net st path n =
     (if is_root_path path then search_ipc net '''' n
      else case path of
             None \<Rightarrow> search_ipc net '''' n
           | Some p \<Rightarrow>
               if \<not> starts_with_slash p \<or> \<not> ends_with_slash p \<or> has_double_slash p
               then assert_unless_debug (debug st) (starts_with_slash p)
                      (assert_unless_debug (debug st) (ends_with_slash p)
                         (assert_unless_debug (debug st) (\<not> has_double_slash p)
                            (Returned ([], n))))
               else search_ipc net p n)"

subsection \<open>watch and provide\<close>

definition watch_message :: "os \<Rightarrow> string \<Rightarrow> 64 word \<Rightarrow> 64 word \<Rightarrow> Apteryx__Watch" where
  "watch_message env path cb priv =
     \<lparr>watch_path = path, watch_value = [], watch_id = pid env,
      watch_cb = cb, watch_priv = priv\<rparr>"

definition watch_ipc ::
  "'n rpc \<Rightarrow> os \<Rightarrow> client \<Rightarrow> string \<Rightarrow> 64 word \<Rightarrow> 64 word \<Rightarrow> 'n
     \<Rightarrow> (bool \<times> client \<times> 'n) outcome" where
  "watch_ipc net env st path cb priv n =
     (case rpc_connect_service net n of
        (False, n1) \<Rightarrow> Returned (False, st, n1)
      | (True, n1) \<Rightarrow>
          (case apteryx__server__watch net (watch_message env path cb priv) n1 of
             (r, n2) \<Rightarrow>
               if \<not> run_closure handle_ok_response r False
               then Returned (False, st, n2)
               else Returned (True,
                      (if cb \<noteq> 0 then start_client_thread env st else st), n2)))"

text \<open>The path \<open>apteryx_watch\<close> goes on with: \<open>empty_root\<close> for the root paths.\<close>

definition watch_pattern :: "string option \<Rightarrow> string" where
  "watch_pattern path0 =
     (if is_root_path path0 then ''/*''
      else case path0 of None \<Rightarrow> ''/*'' | Some p \<Rightarrow> p)"

definition apteryx_watch ::
  "'n rpc \<Rightarrow> os \<Rightarrow> client \<Rightarrow> string option \<Rightarrow> 64 word \<Rightarrow> 64 word \<Rightarrow> 'n
     \<Rightarrow> (bool \<times> client \<times> 'n) outcome" where
  "apteryx_watch net env st path0 cb priv n =
     (let path = watch_pattern path0
      in if \<not> starts_with_slash path
         then assert_unless_debug (debug st) (starts_with_slash path) (Returned (False, st, n))
         else watch_ipc net env st path cb priv n)"

definition provide_message ::
  "os \<Rightarrow> string \<Rightarrow> 64 word \<Rightarrow> 64 word \<Rightarrow> Apteryx__Provide" where
  "provide_message env path cb priv =
     \<lparr>provide_path = path, provide_id = pid env, provide_cb = cb, provide_priv = priv\<rparr>"

definition provide_ipc ::
  "'n rpc \<Rightarrow> os \<Rightarrow> client \<Rightarrow> string \<Rightarrow> 64 word \<Rightarrow> 64 word \<Rightarrow> 'n
     \<Rightarrow> (bool \<times> client \<times> 'n) outcome" where
  "provide_ipc net env st path cb priv n =
     (case rpc_connect_service net n of
        (False, n1) \<Rightarrow> Returned (False, st, n1)
      | (True, n1) \<Rightarrow>
          (case apteryx__server__provide net (provide_message env path cb priv) n1 of
             (r, n2) \<Rightarrow>
               if \<not> run_closure handle_ok_response r False
               then Returned (False, st, n2)
               else Returned (True,
                      (if cb \<noteq> 0 then start_client_thread env st else st), n2)))"

definition apteryx_provide ::
  "'n rpc \<Rightarrow> os \<Rightarrow> client \<Rightarrow> string \<Rightarrow> 64 word \<Rightarrow> 64 word \<Rightarrow> 'n
     \<Rightarrow> (bool \<times> client \<times> 'n) outcome" where
  "apteryx_provide net env st path cb priv n =
     (if \<not> starts_with_slash path
      then assert_unless_debug (debug st) (starts_with_slash path) (Returned (False, st, n))
      else provide_ipc net env st path cb priv n)"

subsection \<open>The dispatchers for inbound invocations\<close>

text \<open>
  What a dispatcher does, in order: it may call the user's callback (the function at
  the address in the message, with the arguments listed), and it calls the closure that
  sends the reply. A \<open>NULL\<close> value pointer is \<open>None\<close>.
\<close>

datatype event =
    Watch_callback "64 word" string "64 word" "bytes option" nat
  | Provide_callback "64 word" string "64 word"
  | OK_closure
  | Get_closure bytes

definition apteryx__watch :: "Apteryx__Watch \<Rightarrow> event list" where
  "apteryx__watch watch =
     (let cb = watch_cb watch;
          (v, vsize) = (if length (watch_value watch) \<noteq> 0
                        then (Some (watch_value watch), length (watch_value watch))
                        else (None, 0))
      in (if cb \<noteq> 0 then [Watch_callback cb (watch_path watch) (watch_priv watch) v vsize]
          else [])
         @ [OK_closure])"

text \<open>
  \<open>apteryx__provide\<close>; \<open>produce\<close> stands for the user's callbacks: what the one at
  an address stores through \<open>value\<close> and \<open>size\<close> for a path and a private pointer.
  \<open>provide_result\<close> is the \<open>result.value\<close> handed to the closure.
\<close>

definition provide_result ::
  "(64 word \<Rightarrow> string \<Rightarrow> 64 word \<Rightarrow> bytes option) \<Rightarrow> Apteryx__Provide \<Rightarrow> bytes" where
  "provide_result produce provide =
     (let cb = provide_cb provide;
          v = (if cb \<noteq> 0 then produce cb (provide_path provide) (provide_priv provide)
               else None)
      in case v of None \<Rightarrow> [] | Some bs \<Rightarrow> bs)"

definition apteryx__provide ::
  "(64 word \<Rightarrow> string \<Rightarrow> 64 word \<Rightarrow> bytes option) \<Rightarrow> Apteryx__Provide \<Rightarrow> event list" where
  "apteryx__provide produce provide =
     (if provide_cb provide \<noteq> 0
      then [Provide_callback (provide_cb provide) (provide_path provide) (provide_priv provide)]
      else [])
     @ [Get_closure (provide_result produce provide)]"

subsection \<open>The integer and string helpers\<close>

text \<open>\<open>asprintf (&full_path, "%s/%s", path, key)\<close>, or \<open>"%s"\<close> without a key.\<close>

definition full_path :: "string \<Rightarrow> string option \<Rightarrow> string" where
  "full_path path key = (case key of None \<Rightarrow> path | Some k \<Rightarrow> path @ ''/'' @ k)"

definition c_bytes :: "string \<Rightarrow> bytes" where
  "c_bytes s = map of_char s"

text \<open>\<open>"%d"\<close> of a 32-bit signed integer.\<close>

fun dec_nat :: "nat \<Rightarrow> string" where
  "dec_nat n =
     (if n < 10 then [char_of (48 + n)]
      else dec_nat (n div 10) @ [char_of (48 + n mod 10)])"

definition dec_int :: "int \<Rightarrow> string" where
  "dec_int i = (if i < 0 then CHR ''-'' # dec_nat (nat (- i)) else dec_nat (nat i))"

text \<open>
  \<open>atoi\<close> is the C library's. It skips white space, reads a sign and then digits up
  to the first byte that is not one; a buffer with no such byte is read past its end
  (\<open>None\<close>). A value out of \<open>long\<close>'s range is clamped, as \<open>strtol\<close> does, and the
  \<open>long\<close> is cut to 32 bits.
\<close>

definition isspace_c :: "byte \<Rightarrow> bool" where
  "isspace_c b = (b = 32 \<or> (9 \<le> b \<and> b \<le> 13))"

definition isdigit_c :: "byte \<Rightarrow> bool" where
  "isdigit_c b = (48 \<le> b \<and> b \<le> 57)"

fun skip_spaces :: "bytes \<Rightarrow> bytes" where
  "skip_spaces [] = []"
| "skip_spaces (b # bs) = (if isspace_c b then skip_spaces bs else b # bs)"

fun scan_digits :: "int \<Rightarrow> bytes \<Rightarrow> int option" where
  "scan_digits acc [] = None"
| "scan_digits acc (b # bs) =
     (if isdigit_c b then scan_digits (acc * 10 + (uint b - 48)) bs else Some acc)"

definition long_to_int :: "int \<Rightarrow> 32 word" where
  "long_to_int v = word_of_int (max (- (2 ^ 63)) (min (2 ^ 63 - 1) v))"

definition atoi :: "bytes \<Rightarrow> 32 word option" where
  "atoi buf =
     (case skip_spaces buf of
        [] \<Rightarrow> None
      | b # bs \<Rightarrow>
          if b = 45 then map_option (\<lambda>v. long_to_int (- v)) (scan_digits 0 bs)
          else if b = 43 then map_option long_to_int (scan_digits 0 bs)
          else map_option long_to_int (scan_digits 0 (b # bs)))"

definition apteryx_set_int ::
  "'n rpc \<Rightarrow> client \<Rightarrow> string \<Rightarrow> string option \<Rightarrow> 32 word \<Rightarrow> 'n \<Rightarrow> (bool \<times> 'n) outcome" where
  "apteryx_set_int net st path key i n =
     (if length (full_path path key) \<noteq> 0
      then apteryx_set net st (full_path path key) (c_bytes (dec_int (sint i)) @ [0]) n
      else Returned (False, n))"

definition apteryx_set_string ::
  "'n rpc \<Rightarrow> client \<Rightarrow> string \<Rightarrow> string option \<Rightarrow> string option \<Rightarrow> 'n
     \<Rightarrow> (bool \<times> 'n) outcome" where
  "apteryx_set_string net st path key s n =
     (if length (full_path path key) \<noteq> 0
      then apteryx_set net st (full_path path key)
             (case s of None \<Rightarrow> [] | Some t \<Rightarrow> c_bytes t @ [0]) n
      else Returned (False, n))"

definition apteryx_get_int ::
  "'n rpc \<Rightarrow> client \<Rightarrow> string \<Rightarrow> string option \<Rightarrow> 'n \<Rightarrow> (32 word \<times> 'n) outcome" where
  "apteryx_get_int net st path key n =
     (if length (full_path path key) \<noteq> 0
      then case apteryx_get net st (full_path path key)
                  (None, length (full_path path key)) n of
             Aborted \<Rightarrow> Aborted
           | Undefined \<Rightarrow> Undefined
           | Returned (ok, (v, len), n1) \<Rightarrow>
               (case v of
                  None \<Rightarrow> Returned (- 1, n1)
                | Some buf \<Rightarrow>
                    if ok
                    then (case atoi buf of
                            None \<Rightarrow> Undefined
                          | Some i \<Rightarrow> Returned (i, n1))
                    else Returned (- 1, n1))
      else Returned (- 1, n))"

definition apteryx_get_string ::
  "'n rpc \<Rightarrow> client \<Rightarrow> string \<Rightarrow> string option \<Rightarrow> 'n \<Rightarrow> (bytes option \<times> 'n) outcome" where
  "apteryx_get_string net st path key n =
     (if length (full_path path key) \<noteq> 0
      then case apteryx_get net st (full_path path key)
                  (None, length (full_path path key)) n of
             Aborted \<Rightarrow> Aborted
           | Undefined \<Rightarrow> Undefined
           | Returned (ok, (v, len), n1) \<Rightarrow>
               Returned ((if \<not> ok then None else v), n1)
      else Returned (None, n))"

subsection \<open>Sequences of calls\<close>

text \<open>
  The public calls of the library, and a run of them against the globals and the
  network. Only \<open>init\<close>, \<open>shutdown\<close>, \<open>watch\<close> and \<open>provide\<close> write globals;
  the others hand back the state they were given. (\<open>apteryx_dump\<close> is a walk made of
  \<open>get\<close> and \<open>search\<close> calls and is not listed.)
\<close>

datatype call =
    Init bool
  | Shutdown
  | Prune string
  | Set string bytes
  | Get string "bytes option \<times> nat"
  | Search "string option"
  | Watch "string option" "64 word" "64 word"
  | Provide string "64 word" "64 word"
  | Set_int string "string option" "32 word"
  | Set_string string "string option" "string option"
  | Get_int string "string option"
  | Get_string string "string option"

definition keep :: "client \<Rightarrow> ('a \<times> 'n) outcome \<Rightarrow> (client \<times> 'n) outcome" where
  "keep st r =
     (case r of Aborted \<Rightarrow> Aborted | Undefined \<Rightarrow> Undefined
      | Returned (x, n) \<Rightarrow> Returned (st, n))"

definition drop_result :: "('a \<times> client \<times> 'n) outcome \<Rightarrow> (client \<times> 'n) outcome" where
  "drop_result r =
     (case r of Aborted \<Rightarrow> Aborted | Undefined \<Rightarrow> Undefined
      | Returned (x, st, n) \<Rightarrow> Returned (st, n))"

fun run_call :: "'n rpc \<Rightarrow> os \<Rightarrow> call \<Rightarrow> client \<times> 'n \<Rightarrow> (client \<times> 'n) outcome" where
  "run_call net env (Init d) (st, n) = Returned (snd (apteryx_init d st), n)"
| "run_call net env Shutdown (st, n) = Returned (snd (apteryx_shutdown env st), n)"
| "run_call net env (Prune p) (st, n) = keep st (apteryx_prune net st p n)"
| "run_call net env (Set p v) (st, n) = keep st (apteryx_set net st p v n)"
| "run_call net env (Get p out) (st, n) =
     (case apteryx_get net st p out n of
        Aborted \<Rightarrow> Aborted | Undefined \<Rightarrow> Undefined
      | Returned (ok, out1, n1) \<Rightarrow> Returned (st, n1))"
| "run_call net env (Search p) (st, n) = keep st (apteryx_search net st p n)"
| "run_call net env (Watch p cb priv) (st, n) =
     drop_result (apteryx_watch net env st p cb priv n)"
| "run_call net env (Provide p cb priv) (st, n) =
     drop_result (apteryx_provide net env st p cb priv n)"
| "run_call net env (Set_int p k i) (st, n) = keep st (apteryx_set_int net st p k i n)"
| "run_call net env (Set_string p k s) (st, n) = keep st (apteryx_set_string net st p k s n)"
| "run_call net env (Get_int p k) (st, n) = keep st (apteryx_get_int net st p k n)"
| "run_call net env (Get_string p k) (st, n) = keep st (apteryx_get_string net st p k n)"

fun run_calls ::
  "'n rpc \<Rightarrow> (os \<times> call) list \<Rightarrow> client \<times> 'n \<Rightarrow> (client \<times> 'n) outcome" where
  "run_calls net [] s = Returned s"
| "run_calls net ((env, c) # cs) s =
     (case run_call net env c s of
        Aborted \<Rightarrow> Aborted | Undefined \<Rightarrow> Undefined
      | Returned s1 \<Rightarrow> run_calls net cs s1)"

subsection \<open>A transport that records what it carries\<close>

text \<open>
  For concrete runs: the network state is the list of requests sent so far, every
  connection succeeds, and the closure is called with a fixed reply.
\<close>

datatype request =
    SET Apteryx__Set
  | GET string
  | SEARCH string
  | PRUNE string
  | WATCH Apteryx__Watch
  | PROVIDE Apteryx__Provide

definition recorder :: "bytes \<Rightarrow> string list \<Rightarrow> request list rpc" where
  "recorder got found =
     \<lparr>rpc_connect_service = (\<lambda>n. (True, n)),
      apteryx__server__set = (\<lambda>m n. (Called (Some ()), n @ [SET m])),
      apteryx__server__get = (\<lambda>p n. (Called (Some got), n @ [GET p])),
      apteryx__server__search = (\<lambda>p n. (Called (Some found), n @ [SEARCH p])),
      apteryx__server__prune = (\<lambda>p n. (Called (Some ()), n @ [PRUNE p])),
      apteryx__server__watch = (\<lambda>m n. (Called (Some ()), n @ [WATCH m])),
      apteryx__server__provide = (\<lambda>m n. (Called (Some ()), n @ [PROVIDE m]))\<rparr>"

text \<open>A broker that cannot be reached, and one that never answers.\<close>

definition unreachable :: "request list rpc" where
  "unreachable = (recorder [] [])\<lparr>rpc_connect_service := (\<lambda>n. (False, n))\<rparr>"

definition silent :: "request list rpc" where
  "silent =
     \<lparr>rpc_connect_service = (\<lambda>n. (True, n)),
      apteryx__server__set = (\<lambda>m n. (Not_called, n @ [SET m])),
      apteryx__server__get = (\<lambda>p n. (Not_called, n @ [GET p])),
      apteryx__server__search = (\<lambda>p n. (Not_called, n @ [SEARCH p])),
      apteryx__server__prune = (\<lambda>p n. (Not_called, n @ [PRUNE p])),
      apteryx__server__watch = (\<lambda>m n. (Not_called, n @ [WATCH m])),
      apteryx__server__provide = (\<lambda>m n. (Not_called, n @ [PROVIDE m]))\<rparr>"

text \<open>Two states of the globals: as the process starts, and after \<open>apteryx_init (true)\<close>.\<close>

definition fresh :: client where
  "fresh = \<lparr>debug = False, ref_count = 0, stopfd = -1, client_thread = -1,
            thread_running = False, listener_alive = False\<rparr>"

definition fresh_debug :: client where
  "fresh_debug = snd (apteryx_init True fresh)"

definition an_os :: os where
  "an_os = \<lparr>pid = 4242, self_tid = 1, spawn_tid = 2, pipe_fds = Some (5, 6),
            service_starts = True, exits_in_time = True\<rparr>"

section \<open>The broker, from the specification\<close>

text \<open>
  The broker process (its database, its watcher and provider registries and its request
  handlers) is not among the sources; only the client library and its tests are. What
  follows is written from the specification's sections 3, 4 and 6, and is used only
  where a property needs both ends of an RPC.
\<close>

text \<open>
  Modelled from the spec: a path as section 3 defines it (the broker's own validation is
  missing). It begins with \<open>/\<close>, has no empty segment, and is not one of the special
  strings that only search and watch accept.
\<close>

definition valid_path :: "string \<Rightarrow> bool" where
  "valid_path p =
     (starts_with_slash p \<and> \<not> has_double_slash p \<and> \<not> ends_with_slash p \<and> p \<noteq> ''/*'')"

text \<open>
  Modelled from the spec: the database's get (missing: database.c). The database is the
  list of the paths that hold a value; \<open>db_get\<close> returns the stored value or
  "absent" (section 4.1).
\<close>

fun db_get :: "(string \<times> bytes) list \<Rightarrow> string \<Rightarrow> bytes option" where
  "db_get [] p = None"
| "db_get ((k, v) # kvs) p = (if k = p then Some v else db_get kvs p)"

text \<open>
  Modelled from the spec: removing a path's value from the database (missing:
  database.c).
\<close>

fun db_delete :: "(string \<times> bytes) list \<Rightarrow> string \<Rightarrow> (string \<times> bytes) list" where
  "db_delete [] p = []"
| "db_delete ((k, v) # kvs) p = (if k = p then db_delete kvs p else (k, v) # db_delete kvs p)"

text \<open>
  Modelled from the spec: the database's set (missing: database.c). A value of length 0
  means delete; any other value replaces what the path held (section 4.1).
\<close>

definition db_set :: "(string \<times> bytes) list \<Rightarrow> string \<Rightarrow> bytes \<Rightarrow> (string \<times> bytes) list" where
  "db_set kvs p v = (if length v = 0 then db_delete kvs p else db_delete kvs p @ [(p, v)])"

text \<open>
  Modelled from the spec: "P begins with the pattern" of section 4.3 (missing: the
  broker's string comparison).
\<close>

definition starts_with :: "string \<Rightarrow> string \<Rightarrow> bool" where
  "starts_with pre p = (take (length pre) p = pre)"

text \<open>
  Modelled from the spec: the database's search (missing: database.c). It lists prefix
  plus next segment for every stored path below the prefix, each once; the empty prefix
  stands for the root (section 4.1).
\<close>

definition db_search :: "(string \<times> bytes) list \<Rightarrow> string \<Rightarrow> string list" where
  "db_search kvs prefix =
     (let pre = (if prefix = '''' then ''/'' else prefix)
      in remdups
           (map (\<lambda>(k, v). pre @ takeWhile (\<lambda>c. c \<noteq> CHR ''/'') (drop (length pre) k))
              (filter (\<lambda>(k, v). starts_with pre k \<and> length pre < length k) kvs)))"

text \<open>
  Modelled from the spec: the database's prune (missing: database.c). It removes a path
  and everything under it (section 4.1 and property 5 of section 8).
\<close>

definition db_prune :: "(string \<times> bytes) list \<Rightarrow> string \<Rightarrow> (string \<times> bytes) list" where
  "db_prune kvs p = filter (\<lambda>(k, v). k \<noteq> p \<and> \<not> starts_with (p @ ''/'') k) kvs"

text \<open>
  Modelled from the spec: a subscription (missing: the broker's callback lists), with
  the attributes section 3 gives it.
\<close>

record subscription =
  sub_pattern :: string
  sub_client :: "64 word"
  sub_cb :: "64 word"
  sub_priv :: "64 word"

text \<open>
  Modelled from the spec: the key of a registry row (missing: the broker's callback
  lists), the pair of pattern and client id.
\<close>

definition sub_key :: "subscription \<Rightarrow> string \<times> 64 word" where
  "sub_key s = (sub_pattern s, sub_client s)"

text \<open>
  Modelled from the spec: a registration (missing: the broker's WATCH and PROVIDE
  handlers). With a non-null callback it replaces the row that has its key, with a null
  callback it removes that row (section 4.3).
\<close>

definition register :: "subscription \<Rightarrow> subscription list \<Rightarrow> subscription list" where
  "register s subs =
     (let others = filter (\<lambda>t. sub_key t \<noteq> sub_key s) subs
      in if sub_cb s \<noteq> 0 then others @ [s] else others)"

text \<open>
  Modelled from the spec: when a stored pattern matches a path that is set (missing:
  the broker's matching code). A pattern with a \<open>*\<close> anywhere but in its last
  position never matches; any other pattern matches by one of the four cases of
  section 4.3, in its order.
\<close>

definition pattern_matches :: "string \<Rightarrow> string \<Rightarrow> bool" where
  "pattern_matches pat p =
     (CHR ''*'' \<notin> set (butlast pat) \<and>
      (pat = p \<or>
       (pat = ''*'' \<or> pat = ''/'' \<or> pat = ''/*'' \<or> pat = '''') \<or>
       (ends_with_slash pat \<and> starts_with pat p) \<or>
       (2 \<le> length pat \<and> drop (length pat - 2) pat = ''/*'' \<and>
        starts_with (butlast pat) p)))"

text \<open>
  Modelled from the spec: the broker's state (missing: apteryxd.c). \<open>online\<close> says
  whether a client can connect; \<open>answers\<close> says which clients' listeners reply to an
  outbound call before it times out. \<open>trace\<close> is not broker state: it lists, in
  order, what the clients' dispatchers did on the broker's outbound calls, each entry
  with the key of the subscription it was made for.
\<close>

record broker =
  online :: bool
  answers :: "64 word \<Rightarrow> bool"
  db :: "(string \<times> bytes) list"
  watchers :: "subscription list"
  providers :: "subscription list"
  trace :: "((string \<times> 64 word) \<times> event) list"

text \<open>
  Modelled from the spec: one notification (missing: the broker's outbound call). The
  broker sends path, value, and the subscription's callback and private handles as
  stored; the client's own dispatcher \<open>apteryx__watch\<close> serves the call. A listener
  that does not answer leaves nothing.
\<close>

definition notify :: "broker \<Rightarrow> string \<Rightarrow> bytes \<Rightarrow> subscription \<Rightarrow> ((string \<times> 64 word) \<times> event) list" where
  "notify b p v s =
     (if answers b (sub_client s)
      then map (Pair (sub_key s))
             (apteryx__watch \<lparr>watch_path = p, watch_value = v, watch_id = sub_client s,
                               watch_cb = sub_cb s, watch_priv = sub_priv s\<rparr>)
      else [])"

text \<open>
  Modelled from the spec: the SET handler (missing: apteryxd.c), section 4.2: update
  the database, compute the matching watchers, notify each of them, and only then
  reply.
\<close>

definition broker_set :: "Apteryx__Set \<Rightarrow> broker \<Rightarrow> broker" where
  "broker_set m b =
     (let b1 = b\<lparr>db := db_set (db b) (set_path m) (set_value m)\<rparr>;
          matches = filter (\<lambda>s. pattern_matches (sub_pattern s) (set_path m)) (watchers b1)
      in b1\<lparr>trace := trace b1 @ concat (map (notify b1 (set_path m) (set_value m)) matches)\<rparr>)"

text \<open>
  Modelled from the spec: the GET handler (missing: apteryxd.c), section 4.2: the
  stored value if there is one, else what a provider registered on exactly this path
  returns, else the empty value. \<open>produce\<close> stands for the users' provider
  callbacks, as in \<open>apteryx__provide\<close>.
\<close>

definition broker_get ::
  "(64 word \<Rightarrow> string \<Rightarrow> 64 word \<Rightarrow> bytes option) \<Rightarrow> string \<Rightarrow> broker \<Rightarrow> bytes \<times> broker" where
  "broker_get produce p b =
     (case db_get (db b) p of
        Some v \<Rightarrow> (v, b)
      | None \<Rightarrow>
          (case filter (\<lambda>s. sub_pattern s = p) (providers b) of
             [] \<Rightarrow> ([], b)
           | s # _ \<Rightarrow>
               if answers b (sub_client s)
               then let m = \<lparr>provide_path = p, provide_id = sub_client s,
                              provide_cb = sub_cb s, provide_priv = sub_priv s\<rparr>
                    in (provide_result produce m,
                        b\<lparr>trace := trace b @ map (Pair (sub_key s)) (apteryx__provide produce m)\<rparr>)
               else ([], b)))"

text \<open>
  Modelled from the spec: the broker as the transport the client library talks to
  (missing: rpc.c and apteryxd.c). A connection is made when the broker is online;
  every request that is sent is answered.
\<close>

definition broker_rpc :: "(64 word \<Rightarrow> string \<Rightarrow> 64 word \<Rightarrow> bytes option) \<Rightarrow> broker rpc" where
  "broker_rpc produce =
     \<lparr>rpc_connect_service = (\<lambda>b. (online b, b)),
      apteryx__server__set = (\<lambda>m b. (Called (Some ()), broker_set m b)),
      apteryx__server__get =
        (\<lambda>p b. case broker_get produce p b of (v, b1) \<Rightarrow> (Called (Some v), b1)),
      apteryx__server__search = (\<lambda>p b. (Called (Some (db_search (db b) p)), b)),
      apteryx__server__prune = (\<lambda>p b. (Called (Some ()), b\<lparr>db := db_prune (db b) p\<rparr>)),
      apteryx__server__watch =
        (\<lambda>m b. (Called (Some ()),
                 b\<lparr>watchers :=
                     register \<lparr>sub_pattern = watch_path m, sub_client = watch_id m,
                               sub_cb = watch_cb m, sub_priv = watch_priv m\<rparr> (watchers b)\<rparr>)),
      apteryx__server__provide =
        (\<lambda>m b. (Called (Some ()),
                 b\<lparr>providers :=
                     register \<lparr>sub_pattern = provide_path m, sub_client = provide_id m,
                               sub_cb = provide_cb m, sub_priv = provide_priv m\<rparr>
                       (providers b)\<rparr>))\<rparr>"

text \<open>
  Modelled from the spec: when this process's listener can be reached (missing: rpc.c;
  section 4.5). The listener serves while the library's own flag \<open>thread_running\<close>
  is set: \<open>listen_thread_handler\<close> sets it before it starts the service and clears
  it in its clean-up, and \<open>stop_client_thread\<close> clears it before a cancellation.
\<close>

definition serving :: "client \<Rightarrow> bool" where
  "serving st = thread_running st"

text \<open>
  Modelled from the spec: the broker's view of the calling process (missing: rpc.c).
  Whether an outbound call to the process \<open>me\<close> is answered is what the state of its
  own listener says; for every other client it stays as the broker's state has it.
\<close>

definition attach :: "64 word \<Rightarrow> client \<Rightarrow> broker \<Rightarrow> broker" where
  "attach me st b = b\<lparr>answers := (answers b)(me := serving st)\<rparr>"


text \<open>An empty broker that is online and whose clients all answer; no provider callbacks.\<close>

definition empty_broker :: broker where
  "empty_broker =
     \<lparr>online = True, answers = (\<lambda>c. True), db = [], watchers = [], providers = [],
      trace = []\<rparr>"

definition no_produce :: "64 word \<Rightarrow> string \<Rightarrow> 64 word \<Rightarrow> bytes option" where
  "no_produce cb p priv = None"



section \<open>Properties\<close>

subsection \<open>Facts used throughout\<close>

lemmas api_defs = apteryx_set_def apteryx_get_def apteryx_prune_def apteryx_search_def
  apteryx_watch_def apteryx_provide_def set_ipc_def get_ipc_def prune_ipc_def search_ipc_def
  watch_ipc_def provide_ipc_def assert_unless_debug_def starts_with_slash_def
  ends_with_slash_def is_root_path_def handle_ok_response_def handle_get_response_def
  handle_search_response_def watch_message_def provide_message_def watch_pattern_def

lemmas world_defs = recorder_def unreachable_def silent_def fresh_def fresh_debug_def
  an_os_def apteryx_init_def

text \<open>Signed comparisons of the 32-bit reference count.\<close>

lemma sint_pred_pos: "0 <s (x::32 word) \<Longrightarrow> sint (x - 1) = sint x - 1"
  apply (simp add: word_sless_alt sint_word_ariths)
  apply (rule signed_take_bit_int_eq_self)
  using sint_range_size[of x] apply (simp_all add: word_size)
  done

lemma not_sle_zero: "(\<not> (x::32 word) \<le>s 0) = (0 <s x)"
  by (auto simp: word_sless_alt word_sle_eq)

lemma pred_pos_iff: "0 <s (x::32 word) \<Longrightarrow> (0 <s x - 1) = (1 <s x)"
  using sint_pred_pos[of x] by (simp add: word_sless_alt)

lemma pos_cases: "0 <s (x::32 word) \<Longrightarrow> \<not> 1 <s x \<Longrightarrow> x = 1"
proof -
  assume "0 <s x" and "\<not> 1 <s x"
  then have "sint x = sint (1::32 word)" by (simp add: word_sless_alt)
  then show "x = 1" by (rule signed_word_eqI)
qed

text \<open>The thread calls write neither the reference count nor the debug flag.\<close>

lemma ref_count_stop [simp]: "ref_count (stop_client_thread env st) = ref_count st"
  by (simp add: stop_client_thread_def listener_cleanup_def Let_def)

lemma debug_listen [simp]: "debug (listen_thread_handler env st) = debug st"
  by (simp add: listen_thread_handler_def listener_cleanup_def Let_def
      split: option.splits prod.splits)

lemma debug_start [simp]: "debug (start_client_thread env st) = debug st"
  by (simp add: start_client_thread_def)

lemma debug_stop [simp]: "debug (stop_client_thread env st) = debug st"
  by (simp add: stop_client_thread_def listener_cleanup_def Let_def)

lemma debug_init [simp]: "debug (snd (apteryx_init d st)) = (debug st \<or> d)"
  by (simp add: apteryx_init_def)

lemma debug_shutdown [simp]: "debug (snd (apteryx_shutdown env st)) = debug st"
  by (simp add: apteryx_shutdown_def Let_def)

lemma keep_Returned: "keep st r = Returned (st', n') \<Longrightarrow> st' = st"
  by (auto simp: keep_def split: outcome.splits)

lemma watch_ipc_debug:
  "watch_ipc net env st p cb priv n = Returned (ok, st', n') \<Longrightarrow> debug st' = debug st"
  by (auto simp: watch_ipc_def split: prod.splits bool.splits if_splits)

lemma provide_ipc_debug:
  "provide_ipc net env st p cb priv n = Returned (ok, st', n') \<Longrightarrow> debug st' = debug st"
  by (auto simp: provide_ipc_def split: prod.splits bool.splits if_splits)

lemma apteryx_watch_debug:
  "apteryx_watch net env st p cb priv n = Returned (ok, st', n') \<Longrightarrow> debug st' = debug st"
  by (auto simp: apteryx_watch_def assert_unless_debug_def Let_def
      dest: watch_ipc_debug split: if_splits)

lemma apteryx_provide_debug:
  "apteryx_provide net env st p cb priv n = Returned (ok, st', n') \<Longrightarrow> debug st' = debug st"
  by (auto simp: apteryx_provide_def assert_unless_debug_def
      dest: provide_ipc_debug split: if_splits)

lemma run_call_debug:
  "run_call net env c (st, n) = Returned (st', n') \<Longrightarrow> debug st \<Longrightarrow> debug st'"
proof (cases c)
  case (Watch p cb priv)
  assume r: "run_call net env c (st, n) = Returned (st', n')" and d: "debug st"
  from r Watch obtain ok where
    w: "apteryx_watch net env st p cb priv n = Returned (ok, st', n')"
    by (auto simp: drop_result_def split: outcome.splits)
  show ?thesis using d apteryx_watch_debug [OF w] by simp
next
  case (Provide p cb priv)
  assume r: "run_call net env c (st, n) = Returned (st', n')" and d: "debug st"
  from r Provide obtain ok where
    w: "apteryx_provide net env st p cb priv n = Returned (ok, st', n')"
    by (auto simp: drop_result_def split: outcome.splits)
  show ?thesis using d apteryx_provide_debug [OF w] by simp
qed (auto dest: keep_Returned split: outcome.splits)

lemma run_calls_debug:
  "run_calls net cs (st, n) = Returned (st', n') \<Longrightarrow> debug st \<Longrightarrow> debug st'"
proof (induction cs arbitrary: st n)
  case Nil
  then show ?case by simp
next
  case (Cons a cs)
  obtain env c where a: "a = (env, c)" by (cases a)
  from Cons.prems(1) a obtain st1 n1 where
    s1: "run_call net env c (st, n) = Returned (st1, n1)" and
    s2: "run_calls net cs (st1, n1) = Returned (st', n')"
    by (auto split: outcome.splits)
  from s1 Cons.prems(2) have "debug st1" by (rule run_call_debug)
  with s2 show ?case by (rule Cons.IH)
qed

subsection \<open>Reference counting\<close>

text \<open>
  Claim C6. \<open>apteryx_shutdown\<close> returns false, and changes nothing, when the
  reference count is not positive. Otherwise it returns true and the count goes down by
  one. When other users remain (the count was above 1) the decrement is the only change.
  When the count was 1 the call goes on to \<open>stop_client_thread\<close> and clears
  \<open>thread_running\<close>. So a listener thread that was alive before a shutdown and is
  not alive after it can only have been stopped by the step from 1 to 0.
\<close>

theorem apteryx_shutdown_ref_count:
  "(ref_count st \<le>s 0 \<longrightarrow> apteryx_shutdown env st = (False, st)) \<and>
   (0 <s ref_count st \<longrightarrow>
      fst (apteryx_shutdown env st) = True \<and>
      ref_count (snd (apteryx_shutdown env st)) = ref_count st - 1) \<and>
   (1 <s ref_count st \<longrightarrow>
      apteryx_shutdown env st = (True, st\<lparr>ref_count := ref_count st - 1\<rparr>)) \<and>
   (ref_count st = 1 \<longrightarrow>
      apteryx_shutdown env st =
        (True, (stop_client_thread env (st\<lparr>ref_count := 0\<rparr>))\<lparr>thread_running := False\<rparr>)) \<and>
   (listener_alive st \<and> \<not> listener_alive (snd (apteryx_shutdown env st))
      \<longrightarrow> ref_count st = 1)"
proof (intro conjI impI)
  assume "ref_count st \<le>s 0"
  then show "apteryx_shutdown env st = (False, st)"
    by (simp add: apteryx_shutdown_def)
next
  assume pos: "0 <s ref_count st"
  then have "\<not> ref_count st \<le>s 0" by (simp add: not_sle_zero)
  then show "fst (apteryx_shutdown env st) = True"
    by (simp add: apteryx_shutdown_def Let_def)
next
  assume pos: "0 <s ref_count st"
  then have "\<not> ref_count st \<le>s 0" by (simp add: not_sle_zero)
  then show "ref_count (snd (apteryx_shutdown env st)) = ref_count st - 1"
    by (simp add: apteryx_shutdown_def Let_def)
next
  assume big: "1 <s ref_count st"
  then have pos: "0 <s ref_count st" by (simp add: word_sless_alt)
  then have "\<not> ref_count st \<le>s 0" by (simp add: not_sle_zero)
  moreover have "0 <s ref_count st - 1" using pos big by (simp add: pred_pos_iff)
  ultimately show "apteryx_shutdown env st = (True, st\<lparr>ref_count := ref_count st - 1\<rparr>)"
    by (simp add: apteryx_shutdown_def Let_def)
next
  assume one: "ref_count st = 1"
  moreover have "\<not> (1::32 word) \<le>s 0" by (simp add: word_sle_eq)
  ultimately show "apteryx_shutdown env st =
        (True, (stop_client_thread env (st\<lparr>ref_count := 0\<rparr>))\<lparr>thread_running := False\<rparr>)"
    by (simp add: apteryx_shutdown_def Let_def)
next
  assume a: "listener_alive st \<and> \<not> listener_alive (snd (apteryx_shutdown env st))"
  show "ref_count st = 1"
  proof (rule ccontr)
    assume ne: "ref_count st \<noteq> 1"
    show False
    proof (cases "ref_count st \<le>s 0")
      case True
      then show False using a by (simp add: apteryx_shutdown_def)
    next
      case False
      then have pos: "0 <s ref_count st" by (simp add: not_sle_zero)
      with ne have "1 <s ref_count st" using pos_cases by blast
      then have "0 <s ref_count st - 1" using pos by (simp add: pred_pos_iff)
      with False show False using a by (simp add: apteryx_shutdown_def Let_def)
    qed
  qed
qed

text \<open>
  The theorem at three states: never initialised; two users; one user with the listener
  running, where the shutdown stops the listener and every global is back to its
  initial value.
\<close>

theorem apteryx_shutdown_ref_count_witness:
  "apteryx_shutdown an_os fresh = (False, fresh) \<and>
   apteryx_shutdown an_os (fresh\<lparr>ref_count := 2\<rparr>) = (True, fresh\<lparr>ref_count := 1\<rparr>) \<and>
   apteryx_shutdown an_os (start_client_thread an_os (fresh\<lparr>ref_count := 1\<rparr>)) = (True, fresh)"
proof -
  have a: "ref_count fresh \<le>s 0"
    by (simp add: fresh_def word_sle_eq)
  have b: "1 <s ref_count (fresh\<lparr>ref_count := 2\<rparr>)"
    by (simp add: word_sless_alt)
  have c: "ref_count (start_client_thread an_os (fresh\<lparr>ref_count := 1\<rparr>)) = 1"
    by (simp add: start_client_thread_def listen_thread_handler_def an_os_def fresh_def)
  have "apteryx_shutdown an_os fresh = (False, fresh)"
    using apteryx_shutdown_ref_count [of fresh an_os] a by simp
  moreover have
    "apteryx_shutdown an_os (fresh\<lparr>ref_count := 2\<rparr>) = (True, fresh\<lparr>ref_count := 1\<rparr>)"
    using apteryx_shutdown_ref_count [of "fresh\<lparr>ref_count := 2\<rparr>" an_os] b by simp
  moreover have
    "apteryx_shutdown an_os (start_client_thread an_os (fresh\<lparr>ref_count := 1\<rparr>)) = (True, fresh)"
    using apteryx_shutdown_ref_count
            [of "start_client_thread an_os (fresh\<lparr>ref_count := 1\<rparr>)" an_os] c
    by (simp add: start_client_thread_def listen_thread_handler_def stop_client_thread_def
        listener_cleanup_def an_os_def fresh_def)
  ultimately show ?thesis by simp
qed

subsection \<open>The debug flag\<close>

text \<open>
  Claim C9. \<open>apteryx_init\<close> returns true for every argument and every state, and
  leaves the debug flag at the disjunction of its old value and the argument. No
  public call that returns clears a flag that is set; so after \<open>apteryx_init (true)\<close>
  the flag is set at the end of every run of calls that returns.
\<close>

theorem apteryx_init_debug_monotone:
  "fst (apteryx_init d st) = True \<and>
   debug (snd (apteryx_init d st)) = (debug st \<or> d) \<and>
   (debug st \<and> run_call net env c (st, n) = Returned (st', n') \<longrightarrow> debug st') \<and>
   (run_calls net cs (snd (apteryx_init True st), n) = Returned (st'', n'') \<longrightarrow> debug st'')"
proof (intro conjI impI)
  show "fst (apteryx_init d st) = True" by (simp add: apteryx_init_def)
  show "debug (snd (apteryx_init d st)) = (debug st \<or> d)" by simp
next
  assume a: "debug st \<and> run_call net env c (st, n) = Returned (st', n')"
  show "debug st'" using run_call_debug [OF conjunct2 [OF a] conjunct1 [OF a]] .
next
  assume "run_calls net cs (snd (apteryx_init True st), n) = Returned (st'', n'')"
  moreover have "debug (snd (apteryx_init True st))" by simp
  ultimately show "debug st''" by (rule run_calls_debug)
qed

text \<open>
  The theorem on a run: after \<open>apteryx_init (true)\<close>, a set, a shutdown and an
  \<open>apteryx_init (false)\<close> leave the flag set.
\<close>

theorem apteryx_init_debug_monotone_witness:
  "fst (apteryx_init False fresh) = True \<and>
   debug (snd (apteryx_init True fresh)) \<and>
   run_call (recorder [] []) an_os Shutdown (fresh_debug, []) =
     Returned (fresh\<lparr>debug := True\<rparr>, []) \<and>
   (case run_calls (recorder [] [])
           [(an_os, Set ''/a'' [1]), (an_os, Shutdown), (an_os, Init False)]
           (snd (apteryx_init True fresh), []) of
      Returned (st, n) \<Rightarrow> debug st
    | _ \<Rightarrow> False)"
proof -
  let ?cs = "[(an_os, Set ''/a'' [1]), (an_os, Shutdown), (an_os, Init False)]"
  have r: "run_calls (recorder [] []) ?cs (snd (apteryx_init True fresh), []) =
      Returned (fresh\<lparr>debug := True, ref_count := 1\<rparr>,
                [SET \<lparr>set_path = ''/a'', set_value = [1]\<rparr>])"
    by (simp add: api_defs world_defs keep_def apteryx_shutdown_def stop_client_thread_def
        word_sle_eq word_sless_alt)
  have s: "run_call (recorder [] []) an_os Shutdown (fresh_debug, []) =
      Returned (fresh\<lparr>debug := True\<rparr>, [])"
    by (simp add: world_defs apteryx_shutdown_def stop_client_thread_def
        word_sle_eq word_sless_alt)
  note t = apteryx_init_debug_monotone [of False fresh "recorder [] []" an_os Shutdown "[]"
      "fresh\<lparr>debug := True\<rparr>" "[]" ?cs
      "fresh\<lparr>debug := True, ref_count := 1\<rparr>" "[SET \<lparr>set_path = ''/a'', set_value = [1]\<rparr>]"]
  show ?thesis using t r s by (simp add: fresh_def apteryx_init_def)
qed

subsection \<open>Path checks at the client\<close>

text \<open>
  Claim C8, as amended. When \<open>apteryx_get\<close> is called with a path that does not
  begin with \<open>/\<close>, nothing is written through \<open>value\<close> and \<open>size\<close> and no RPC is
  made: with the debug flag off the call returns false and hands back the caller's
  prior outputs and the network as they were; with the debug flag on the assertion
  ends the process at the same point, before the outputs are initialised.
\<close>

theorem apteryx_get_invalid_path_frame:
  "\<not> starts_with_slash path \<Longrightarrow>
   apteryx_get net st path out n = (if debug st then Aborted else Returned (False, out, n))"
  by (simp add: apteryx_get_def assert_unless_debug_def)

text \<open>Two invalid paths with the flag off: the prior outputs come back untouched.\<close>

theorem apteryx_get_invalid_path_frame_witness:
  "apteryx_get (recorder [1, 2] []) fresh ''entity'' (Some [7], 1) [] =
     Returned (False, (Some [7], 1), []) \<and>
   apteryx_get (recorder [1, 2] []) fresh '''' (None, 5) [] = Returned (False, (None, 5), [])"
proof -
  have a: "\<not> starts_with_slash ''entity''" and b: "\<not> starts_with_slash ''''"
    by (simp_all add: starts_with_slash_def)
  show ?thesis
    using apteryx_get_invalid_path_frame [OF a, of "recorder [1, 2] []" fresh "(Some [7], 1)" "[]"]
      apteryx_get_invalid_path_frame [OF b, of "recorder [1, 2] []" fresh "(None, 5)" "[]"]
    by (simp add: fresh_def)
qed

text \<open>
  The claim as first stated says the call returns false. After \<open>apteryx_init (true)\<close>
  it does not return: \<open>assert (!debug || path[0] == '/')\<close> fails.
\<close>

theorem apteryx_get_invalid_path_debug_aborts:
  "apteryx_get (recorder [1, 2] []) fresh_debug ''entity'' (Some [7], 1) [] = Aborted"
  by (simp add: api_defs world_defs)

text \<open>
  Claim C4. When the connection is made and the GET reply carries a value of length 0,
  \<open>apteryx_get\<close> leaves \<open>*value = NULL\<close> and \<open>*size = 0\<close> and returns false.
  The outcome depends on nothing but the reply's length, so a path with no stored value
  and a path whose stored value is empty, both answered with zero bytes, cannot be told
  apart by the caller.
\<close>

theorem apteryx_get_zero_length_reply:
  "starts_with_slash path \<Longrightarrow>
   rpc_connect_service net n = (True, n1) \<Longrightarrow>
   apteryx__server__get net path n1 = (Called (Some v), n2) \<Longrightarrow>
   length v = 0 \<Longrightarrow>
   apteryx_get net st path out n = Returned (False, (None, 0), n2)"
  by (simp add: apteryx_get_def get_ipc_def handle_get_response_def)

text \<open>The test \<open>test_get_no_value\<close>: a get of a path the broker answers with no bytes.\<close>

theorem apteryx_get_zero_length_reply_witness:
  "apteryx_get (recorder [] []) fresh ''/entity/zones/private/name'' (Some [7], 1) [] =
     Returned (False, (None, 0), [GET ''/entity/zones/private/name''])"
proof -
  let ?p = "''/entity/zones/private/name''"
  have a: "starts_with_slash ?p" by (simp add: starts_with_slash_def)
  have b: "rpc_connect_service (recorder [] []) [] = (True, [])"
    by (simp add: recorder_def)
  have c: "apteryx__server__get (recorder [] []) ?p [] = (Called (Some []), [GET ?p])"
    by (simp add: recorder_def)
  have d: "length ([] :: bytes) = 0" by simp
  show ?thesis using apteryx_get_zero_length_reply [OF a b c d] .
qed

text \<open>
  Claim C2, as amended. Each of the four special paths (the empty string, \<open>/\<close>,
  \<open>*\<close> and \<open>/*\<close>) is accepted by \<open>apteryx_search\<close>, which sends the empty
  prefix, and by \<open>apteryx_watch\<close>, which sends the pattern \<open>/*\<close>. Of the four,
  the empty string and \<open>*\<close> are turned away by \<open>apteryx_set\<close>, \<open>apteryx_get\<close>,
  \<open>apteryx_prune\<close> and \<open>apteryx_provide\<close> before any RPC (a failure return with
  the debug flag off, a failed assertion with it on). \<open>/\<close> and \<open>/*\<close> begin with
  \<open>/\<close>, which is all those four calls look at, and go on to the broker.
\<close>

theorem special_paths:
  "(p = '''' \<or> p = ''/'' \<or> p = ''*'' \<or> p = ''/*'' \<longrightarrow>
      apteryx_search net st (Some p) n = search_ipc net '''' n \<and>
      apteryx_watch net env st (Some p) cb priv n = watch_ipc net env st ''/*'' cb priv n) \<and>
   (p = '''' \<or> p = ''*'' \<longrightarrow>
      apteryx_set net st p v n = (if debug st then Aborted else Returned (False, n)) \<and>
      apteryx_get net st p out n = (if debug st then Aborted else Returned (False, out, n)) \<and>
      apteryx_prune net st p n = (if debug st then Aborted else Returned (False, n)) \<and>
      apteryx_provide net env st p cb priv n =
        (if debug st then Aborted else Returned (False, st, n))) \<and>
   (p = ''/'' \<or> p = ''/*'' \<longrightarrow>
      apteryx_set net st p v n = set_ipc net p v n \<and>
      apteryx_get net st p out n = get_ipc net p n \<and>
      apteryx_prune net st p n = prune_ipc net p n \<and>
      apteryx_provide net env st p cb priv n = provide_ipc net env st p cb priv n)"
  by (auto simp: apteryx_search_def apteryx_watch_def apteryx_set_def apteryx_get_def
      apteryx_prune_def apteryx_provide_def is_root_path_def starts_with_slash_def
      watch_pattern_def assert_unless_debug_def)

text \<open>
  The theorem against the recording transport: search on \<open>/*\<close> sends the empty
  prefix, watch on \<open>*\<close> sends \<open>/*\<close>, set on \<open>*\<close> and prune on the empty
  string send nothing, prune on \<open>/*\<close> is sent.
\<close>

theorem special_paths_witness:
  "apteryx_search (recorder [] [''/a'']) fresh (Some ''/*'') [] =
     Returned ([''/a''], [SEARCH '''']) \<and>
   apteryx_watch (recorder [] []) an_os fresh (Some ''*'') 0 0 [] =
     Returned (True, fresh, [WATCH (watch_message an_os ''/*'' 0 0)]) \<and>
   apteryx_set (recorder [] []) fresh ''*'' [1] [] = Returned (False, []) \<and>
   apteryx_prune (recorder [] []) fresh '''' [] = Returned (False, []) \<and>
   apteryx_prune (recorder [] []) fresh ''/*'' [] = Returned (True, [PRUNE ''/*''])"
  using special_paths [where p = "''/*''" and net = "recorder [] [''/a'']" and st = fresh
      and n = "[]"]
    special_paths [where p = "''*''" and net = "recorder [] []" and st = fresh and n = "[]"
      and env = an_os and cb = 0 and priv = 0 and v = "[1]"]
    special_paths [where p = "''''" and net = "recorder [] []" and st = fresh and n = "[]"]
    special_paths [where p = "''/*''" and net = "recorder [] []" and st = fresh and n = "[]"]
  by (simp add: search_ipc_def watch_ipc_def prune_ipc_def recorder_def fresh_def
      handle_search_response_def handle_ok_response_def)

text \<open>
  The claim as first stated has \<open>apteryx_set\<close> reject \<open>/\<close> with a failure
  return. It does not: the request is sent and, the broker having answered, the call
  returns true. Nor is the rejection of \<open>*\<close> a failure return after
  \<open>apteryx_init (true)\<close>: the assertion fails.
\<close>

theorem special_path_accepted_by_set:
  "apteryx_set (recorder [] []) fresh ''/'' [1] [] =
     Returned (True, [SET \<lparr>set_path = ''/'', set_value = [1]\<rparr>]) \<and>
   apteryx_prune (recorder [] []) fresh_debug ''*'' [] = Aborted"
  by (simp add: api_defs world_defs)

text \<open>
  Claim C3, as amended. For every path that does not begin with \<open>/\<close> (the empty
  path is one), \<open>apteryx_set\<close>, \<open>apteryx_get\<close>, \<open>apteryx_prune\<close> and
  \<open>apteryx_provide\<close> fail without an RPC: the network state is handed back as it
  was. So does \<open>apteryx_watch\<close>, for every such path but the empty string and
  \<open>*\<close>, which it reads as "everything". \<open>apteryx_search\<close> fails without an RPC
  for every path other than the four special ones that does not begin with \<open>/\<close>,
  does not end with \<open>/\<close>, or contains \<open>//\<close>; it is the only call that looks for
  \<open>//\<close>. Failing is a failure return (false, or the empty list) with the debug flag
  off and a failed assertion with it on.
\<close>

theorem invalid_path_rejected:
  "(\<not> starts_with_slash p \<longrightarrow>
      apteryx_set net st p v n = (if debug st then Aborted else Returned (False, n)) \<and>
      apteryx_get net st p out n = (if debug st then Aborted else Returned (False, out, n)) \<and>
      apteryx_prune net st p n = (if debug st then Aborted else Returned (False, n)) \<and>
      apteryx_provide net env st p cb priv n =
        (if debug st then Aborted else Returned (False, st, n))) \<and>
   (\<not> starts_with_slash p \<and> p \<noteq> '''' \<and> p \<noteq> ''*'' \<longrightarrow>
      apteryx_watch net env st (Some p) cb priv n =
        (if debug st then Aborted else Returned (False, st, n))) \<and>
   ((\<not> starts_with_slash p \<or> \<not> ends_with_slash p \<or> has_double_slash p) \<and>
    p \<noteq> '''' \<and> p \<noteq> ''/'' \<and> p \<noteq> ''*'' \<and> p \<noteq> ''/*'' \<longrightarrow>
      apteryx_search net st (Some p) n = (if debug st then Aborted else Returned ([], n)))"
  apply (intro conjI impI)
       apply (simp_all add: apteryx_set_def apteryx_get_def apteryx_prune_def
      apteryx_provide_def apteryx_watch_def apteryx_search_def assert_unless_debug_def
      is_root_path_def watch_pattern_def)
   apply (auto simp: starts_with_slash_def)
  done

text \<open>
  The theorem against the recording transport, with the flag off: nothing is sent for a
  relative path given to set or watch, nor for a search prefix with \<open>//\<close> in it or
  without its final \<open>/\<close>.
\<close>

theorem invalid_path_rejected_witness:
  "apteryx_set (recorder [] []) fresh ''a/b'' [1] [] = Returned (False, []) \<and>
   apteryx_watch (recorder [] []) an_os fresh (Some ''a/b'') 1 2 [] =
     Returned (False, fresh, []) \<and>
   apteryx_search (recorder [] []) fresh (Some ''/a//b/'') [] = Returned ([], []) \<and>
   apteryx_search (recorder [] []) fresh (Some ''/a/b'') [] = Returned ([], [])"
  using invalid_path_rejected [where p = "''a/b''" and net = "recorder [] []" and st = fresh
      and v = "[1]" and n = "[]" and env = an_os and cb = 1 and priv = 2]
    invalid_path_rejected [where p = "''/a//b/''" and net = "recorder [] []" and st = fresh
      and n = "[]"]
    invalid_path_rejected [where p = "''/a/b''" and net = "recorder [] []" and st = fresh
      and n = "[]"]
  by (simp add: starts_with_slash_def ends_with_slash_def fresh_def)

text \<open>
  The claim as first stated has every call fail, without an RPC, on a path that contains
  \<open>//\<close> or is empty. \<open>apteryx_set\<close> sends a path with \<open>//\<close> in it to the
  broker and returns true; \<open>apteryx_watch\<close> sends a watch for the empty path; and
  after \<open>apteryx_init (true)\<close> a relative path ends in a failed assertion, not in a
  failure return.
\<close>

theorem double_slash_accepted_by_set:
  "apteryx_set (recorder [] []) fresh ''/a//b'' [1] [] =
     Returned (True, [SET \<lparr>set_path = ''/a//b'', set_value = [1]\<rparr>]) \<and>
   apteryx_watch (recorder [] []) an_os fresh (Some '''') 0 0 [] =
     Returned (True, fresh, [WATCH (watch_message an_os ''/*'' 0 0)]) \<and>
   apteryx_set (recorder [] []) fresh_debug ''a/b'' [1] [] = Aborted"
  by (simp add: api_defs world_defs)

subsection \<open>Watch callbacks\<close>

text \<open>
  Claim C7. On an inbound watch invocation whose callback handle is not null, the
  dispatcher makes one call, to the function at the handle carried in the message, with
  the message's path, its private handle and its value bytes, and then replies; a value
  of length 0 reaches the callback as \<open>NULL\<close> with size 0. The registration sends the
  callback and private handles it was given, unchanged; so an invocation that carries
  the registration's handles calls the function that was registered, with the private
  handle that was registered.
\<close>

theorem apteryx__watch_delivers:
  "watch_cb m \<noteq> 0 \<Longrightarrow> cb \<noteq> 0 \<Longrightarrow> starts_with_slash (watch_pattern (Some pat)) \<Longrightarrow>
   apteryx__watch m =
     [Watch_callback (watch_cb m) (watch_path m) (watch_priv m)
        (if length (watch_value m) = 0 then None else Some (watch_value m))
        (length (watch_value m)),
      OK_closure] \<and>
   apteryx_watch (recorder g f) env st (Some pat) cb priv n =
     Returned (True, start_client_thread env st,
               n @ [WATCH (watch_message env (watch_pattern (Some pat)) cb priv)]) \<and>
   watch_cb (watch_message env (watch_pattern (Some pat)) cb priv) = cb \<and>
   watch_priv (watch_message env (watch_pattern (Some pat)) cb priv) = priv \<and>
   apteryx__watch
     ((watch_message env (watch_pattern (Some pat)) cb priv)
        \<lparr>watch_path := P, watch_value := V\<rparr>) =
     [Watch_callback cb P priv (if length V = 0 then None else Some V) (length V),
      OK_closure]"
  by (auto simp: apteryx__watch_def watch_message_def apteryx_watch_def watch_ipc_def
      recorder_def handle_ok_response_def Let_def)

text \<open>
  Scenario S3 of the specification: the watch on \<open>/entity/zones/private/*\<close> with
  private handle \<open>0x12345678\<close>, and the invocation for \<open>"down\0"\<close> set at
  \<open>/entity/zones/private/state\<close>; then the same invocation with an empty value.
\<close>

theorem apteryx__watch_delivers_witness:
  "apteryx__watch
     \<lparr>watch_path = ''/entity/zones/private/state'', watch_value = [100, 111, 119, 110, 0],
      watch_id = 4242, watch_cb = 0x401000, watch_priv = 0x12345678\<rparr> =
     [Watch_callback 0x401000 ''/entity/zones/private/state'' 0x12345678
        (Some [100, 111, 119, 110, 0]) 5, OK_closure] \<and>
   apteryx_watch (recorder [] []) an_os fresh (Some ''/entity/zones/private/*'')
       0x401000 0x12345678 [] =
     Returned (True, start_client_thread an_os fresh,
               [WATCH \<lparr>watch_path = ''/entity/zones/private/*'', watch_value = [],
                       watch_id = 4242, watch_cb = 0x401000, watch_priv = 0x12345678\<rparr>]) \<and>
   apteryx__watch
     \<lparr>watch_path = ''/entity/zones/private/state'', watch_value = [],
      watch_id = 4242, watch_cb = 0x401000, watch_priv = 0x12345678\<rparr> =
     [Watch_callback 0x401000 ''/entity/zones/private/state'' 0x12345678 None 0, OK_closure]"
proof -
  let ?m = "\<lparr>watch_path = ''/entity/zones/private/state'',
             watch_value = [100, 111, 119, 110, 0],
             watch_id = 4242, watch_cb = 0x401000, watch_priv = 0x12345678 :: 64 word\<rparr>"
  have a: "watch_cb ?m \<noteq> 0" by simp
  have b: "(0x401000 :: 64 word) \<noteq> 0" by simp
  have c: "starts_with_slash (watch_pattern (Some ''/entity/zones/private/*''))"
    by (simp add: starts_with_slash_def watch_pattern_def is_root_path_def)
  show ?thesis
    using apteryx__watch_delivers [OF a b c, where g = "[]" and f = "[]" and env = an_os
        and st = fresh and priv = "0x12345678" and n = "[]"
        and P = "''/entity/zones/private/state''" and V = "[]"]
    by (simp add: watch_message_def an_os_def watch_pattern_def is_root_path_def)
qed

subsection \<open>The integer helper\<close>

text \<open>\<open>"%d"\<close> of \<open>-1\<close>, and \<open>atoi\<close> of the bytes it is stored as.\<close>

lemma dec_int_minus_one: "dec_int (- 1) = ''-1''"
  by code_simp

lemma atoi_minus_one: "atoi (c_bytes ''-1'' @ [0]) = Some (- 1)"
  by (simp add: atoi_def c_bytes_def isspace_c_def isdigit_c_def long_to_int_def)

text \<open>
  Claim C10, as amended. \<open>apteryx_get_int\<close> returns \<open>-1\<close> whenever the get it
  makes returns false or yields no value: for an absent path, for a broker that cannot
  be reached or does not answer, and, with the debug flag off, for a full path that does
  not begin with \<open>/\<close>. It also returns \<open>-1\<close> when the value read is the three
  bytes \<open>"-1\0"\<close>, which is what \<open>apteryx_set_int\<close> sends for \<open>-1\<close>; so a
  stored \<open>-1\<close> cannot be told from absence. With the debug flag on, a full path that
  is not empty and does not begin with \<open>/\<close> makes the get fail its assertion, and
  \<open>apteryx_get_int\<close> does not return. The empty full path (an empty path with no
  key) is never given to get: \<open>-1\<close> comes back in either mode, with no RPC.
\<close>

theorem apteryx_get_int_minus_one:
  "(apteryx_get net st (full_path path key) (None, length (full_path path key)) n =
      Returned (False, out, n1) \<longrightarrow>
    apteryx_get_int net st path key n = Returned (- 1, n1)) \<and>
   (apteryx_get net st (full_path path key) (None, length (full_path path key)) n =
      Returned (ok, (None, len), n1) \<longrightarrow>
    apteryx_get_int net st path key n = Returned (- 1, n1)) \<and>
   (apteryx_get net st (full_path path key) (None, length (full_path path key)) n =
      Returned (True, (Some (c_bytes (dec_int (- 1)) @ [0]), 3), n1) \<longrightarrow>
    apteryx_get_int net st path key n = Returned (- 1, n1)) \<and>
   (\<not> starts_with_slash (full_path path key) \<and> \<not> debug st \<longrightarrow>
    apteryx_get_int net st path key n = Returned (- 1, n)) \<and>
   (starts_with_slash (full_path path key) \<longrightarrow>
    apteryx_set_int (recorder g f) st path key (- 1) m =
      Returned (True, m @ [SET \<lparr>set_path = full_path path key,
                                 set_value = c_bytes (dec_int (- 1)) @ [0]\<rparr>])) \<and>
   (\<not> starts_with_slash (full_path path key) \<and> full_path path key \<noteq> '''' \<and> debug st
      \<longrightarrow>
    apteryx_get_int net st path key n = Aborted) \<and>
   (full_path path key = '''' \<longrightarrow> apteryx_get_int net st path key n = Returned (- 1, n))"
proof (intro conjI impI)
  assume a: "apteryx_get net st (full_path path key) (None, length (full_path path key)) n =
      Returned (False, out, n1)"
  show "apteryx_get_int net st path key n = Returned (- 1, n1)"
  proof (cases "full_path path key = []")
    case True
    with a show ?thesis
      by (auto simp: apteryx_get_int_def apteryx_get_def starts_with_slash_def
          assert_unless_debug_def split: if_splits)
  next
    case False
    with a show ?thesis
      by (cases out) (auto simp: apteryx_get_int_def split: option.splits)
  qed
next
  assume a: "apteryx_get net st (full_path path key) (None, length (full_path path key)) n =
      Returned (ok, (None, len), n1)"
  show "apteryx_get_int net st path key n = Returned (- 1, n1)"
  proof (cases "full_path path key = []")
    case True
    with a show ?thesis
      by (auto simp: apteryx_get_int_def apteryx_get_def starts_with_slash_def
          assert_unless_debug_def split: if_splits)
  next
    case False
    with a show ?thesis by (simp add: apteryx_get_int_def)
  qed
next
  note d = dec_int_minus_one
  assume a: "apteryx_get net st (full_path path key) (None, length (full_path path key)) n =
      Returned (True, (Some (c_bytes (dec_int (- 1)) @ [0]), 3), n1)"
  show "apteryx_get_int net st path key n = Returned (- 1, n1)"
  proof (cases "full_path path key = []")
    case True
    with a show ?thesis
      by (auto simp: apteryx_get_int_def apteryx_get_def starts_with_slash_def
          assert_unless_debug_def split: if_splits)
  next
    case False
    with a show ?thesis by (simp add: apteryx_get_int_def atoi_minus_one d)
  qed
next
  assume a: "\<not> starts_with_slash (full_path path key) \<and> \<not> debug st"
  then show "apteryx_get_int net st path key n = Returned (- 1, n)"
    by (simp add: apteryx_get_int_def apteryx_get_def assert_unless_debug_def)
next
  assume a: "starts_with_slash (full_path path key)"
  then have "full_path path key \<noteq> []" by (auto simp: starts_with_slash_def)
  with a show "apteryx_set_int (recorder g f) st path key (- 1) m =
      Returned (True, m @ [SET \<lparr>set_path = full_path path key,
                                 set_value = c_bytes (dec_int (- 1)) @ [0]\<rparr>])"
    by (simp add: apteryx_set_int_def apteryx_set_def set_ipc_def recorder_def
        handle_ok_response_def)
next
  assume "\<not> starts_with_slash (full_path path key) \<and> full_path path key \<noteq> '''' \<and> debug st"
  then show "apteryx_get_int net st path key n = Aborted"
    by (simp add: apteryx_get_int_def apteryx_get_def assert_unless_debug_def)
next
  assume "full_path path key = ''''"
  then show "apteryx_get_int net st path key n = Returned (- 1, n)"
    by (simp add: apteryx_get_int_def)
qed

text \<open>
  The theorem at five runs with the flag off: a broker that cannot be reached, one that
  does not answer, one that answers with no bytes, one that answers \<open>"-1\0"\<close>, and
  a path that does not begin with \<open>/\<close>; and at two runs with the flag on, for that
  path and for the empty one.
\<close>

theorem apteryx_get_int_minus_one_witness:
  "apteryx_get_int unreachable fresh ''/entity/zones'' (Some ''count'') [] =
     Returned (- 1, []) \<and>
   apteryx_get_int silent fresh ''/entity/zones'' (Some ''count'') [] =
     Returned (- 1, [GET ''/entity/zones/count'']) \<and>
   apteryx_get_int (recorder [] []) fresh ''/entity/zones'' (Some ''count'') [] =
     Returned (- 1, [GET ''/entity/zones/count'']) \<and>
   apteryx_get_int (recorder [45, 49, 0] []) fresh ''/entity/zones'' (Some ''count'') [] =
     Returned (- 1, [GET ''/entity/zones/count'']) \<and>
   apteryx_get_int (recorder [] []) fresh ''entity'' None [] = Returned (- 1, []) \<and>
   apteryx_get_int (recorder [] []) fresh_debug ''entity'' None [] = Aborted \<and>
   apteryx_get_int (recorder [] []) fresh_debug '''' None [] = Returned (- 1, [])"
proof -
  let ?p = "''/entity/zones''" and ?k = "Some ''count''"
  let ?f = "full_path ?p ?k"
  let ?sent = "[GET ''/entity/zones/count'']"
  have f: "?f = ''/entity/zones/count''" by (simp add: full_path_def)
  have e: "c_bytes (dec_int (- 1)) @ [0] = [45, 49, 0]"
    by (simp add: c_bytes_def dec_int_minus_one)
  have g1: "apteryx_get unreachable fresh ?f (None, length ?f) [] =
      Returned (False, (None, 0), [])"
    by (simp add: f api_defs world_defs)
  have g2: "apteryx_get silent fresh ?f (None, length ?f) [] =
      Returned (False, (None, 0), ?sent)"
    by (simp add: f api_defs world_defs)
  have g3: "apteryx_get (recorder [] []) fresh ?f (None, length ?f) [] =
      Returned (False, (None, 0), ?sent)"
    by (simp add: f api_defs world_defs)
  have g4: "apteryx_get (recorder [45, 49, 0] []) fresh ?f (None, length ?f) [] =
      Returned (True, (Some (c_bytes (dec_int (- 1)) @ [0]), 3), ?sent)"
    by (simp add: f e api_defs world_defs)
  have g5: "\<not> starts_with_slash (full_path ''entity'' None) \<and> \<not> debug fresh"
    by (simp add: full_path_def starts_with_slash_def fresh_def)
  note t = apteryx_get_int_minus_one
  from t [where net = unreachable and st = fresh and path = ?p and key = ?k and n = "[]"
          and out = "(None, 0)" and ?n1.0 = "[]"] g1
  have r1: "apteryx_get_int unreachable fresh ?p ?k [] = Returned (- 1, [])" by blast
  from t [where net = silent and st = fresh and path = ?p and key = ?k and n = "[]"
          and out = "(None, 0)" and ?n1.0 = ?sent] g2
  have r2: "apteryx_get_int silent fresh ?p ?k [] = Returned (- 1, ?sent)"
    by blast
  from t [where net = "recorder [] []" and st = fresh and path = ?p and key = ?k and n = "[]"
          and ok = False and len = 0 and ?n1.0 = ?sent] g3
  have r3: "apteryx_get_int (recorder [] []) fresh ?p ?k [] = Returned (- 1, ?sent)"
    by blast
  from t [where net = "recorder [45, 49, 0] []" and st = fresh and path = ?p
          and key = ?k and n = "[]" and ?n1.0 = ?sent] g4
  have r4: "apteryx_get_int (recorder [45, 49, 0] []) fresh ?p ?k [] = Returned (- 1, ?sent)"
    by blast
  from t [where net = "recorder [] []" and st = fresh and path = "''entity''" and key = None
          and n = "[]"] g5
  have r5: "apteryx_get_int (recorder [] []) fresh ''entity'' None [] = Returned (- 1, [])"
    by blast
  have g6: "\<not> starts_with_slash (full_path ''entity'' None) \<and>
      full_path ''entity'' None \<noteq> '''' \<and> debug fresh_debug"
    by (simp add: full_path_def starts_with_slash_def fresh_debug_def)
  have g7: "full_path '''' None = ''''" by (simp add: full_path_def)
  from t [where net = "recorder [] []" and st = fresh_debug and path = "''entity''"
          and key = None and n = "[]"] g6
  have r6: "apteryx_get_int (recorder [] []) fresh_debug ''entity'' None [] = Aborted"
    by blast
  from t [where net = "recorder [] []" and st = fresh_debug and path = "''''"
          and key = None and n = "[]"] g7
  have r7: "apteryx_get_int (recorder [] []) fresh_debug '''' None [] = Returned (- 1, [])"
    by blast
  from r1 r2 r3 r4 r5 r6 r7 show ?thesis by (intro conjI)
qed

text \<open>
  The claim as first stated lists the invalid path among the cases that give \<open>-1\<close>.
  After \<open>apteryx_init (true)\<close> the call does not return.
\<close>

theorem apteryx_get_int_debug_aborts:
  "apteryx_get_int (recorder [] []) fresh_debug ''entity'' (Some ''count'') [] = Aborted"
  by (simp add: apteryx_get_int_def full_path_def api_defs world_defs)

section \<open>Properties of the client against the broker\<close>

subsection \<open>Facts about the broker\<close>

lemma db_get_delete [simp]: "db_get (db_delete kvs p) p = None"
  by (induction kvs) auto

lemma db_get_append:
  "db_get (kvs @ [(p, v)]) q =
     (case db_get kvs q of Some w \<Rightarrow> Some w | None \<Rightarrow> if p = q then Some v else None)"
  by (induction kvs) auto

lemma db_get_set: "db_get (db_set kvs p v) p = (if length v = 0 then None else Some v)"
  by (simp add: db_set_def db_get_append)

lemma valid_path_starts: "valid_path p \<Longrightarrow> starts_with_slash p"
  by (simp add: valid_path_def)

lemma broker_set_fields [simp]:
  "online (broker_set m b) = online b"
  "answers (broker_set m b) = answers b"
  "watchers (broker_set m b) = watchers b"
  "providers (broker_set m b) = providers b"
  "db (broker_set m b) = db_set (db b) (set_path m) (set_value m)"
  by (simp_all add: broker_set_def Let_def)

text \<open>What set comes to when the transport is the broker.\<close>

lemma apteryx_set_broker:
  "starts_with_slash p \<Longrightarrow>
   apteryx_set (broker_rpc produce) st p v b =
     (if online b then Returned (True, broker_set \<lparr>set_path = p, set_value = v\<rparr> b)
      else Returned (False, b))"
  by (simp add: apteryx_set_def set_ipc_def broker_rpc_def handle_ok_response_def)

text \<open>
  The same, when the transport is that of a process with its listener: what the broker
  works on is its state with the process attached.
\<close>

lemma attach_fields [simp]:
  "online (attach me st b) = online b"
  "db (attach me st b) = db b"
  "watchers (attach me st b) = watchers b"
  "providers (attach me st b) = providers b"
  "trace (attach me st b) = trace b"
  "answers (attach me st b) me = serving st"
  by (simp_all add: attach_def)










subsection \<open>Round trip\<close>

text \<open>
  Claim C1. For every valid path \<open>P\<close> and every byte string \<open>V\<close>: if
  \<open>apteryx_set (P, V)\<close> succeeds, and no provider is registered at \<open>P\<close>, then
  \<open>apteryx_get (P)\<close> on the state the set left (no writer in between) hands back
  exactly \<open>V\<close>: \<open>*size\<close> is the length of \<open>V\<close> and \<open>*value\<close> holds the bytes
  of \<open>V\<close>. For \<open>V\<close> of length 0 that is \<open>*size = 0\<close> with \<open>*value = NULL\<close>,
  and the call's boolean result is false; for any other \<open>V\<close> it is true.
\<close>

theorem set_get_round_trip:
  assumes "valid_path P"
    and "apteryx_set (broker_rpc produce) st P V b = Returned (True, b1)"
    and "filter (\<lambda>s. sub_pattern s = P) (providers b1) = []"
  shows "apteryx_get (broker_rpc produce) st' P out b1 =
           Returned (V \<noteq> [], (if V = [] then None else Some V, length V), b1)"
proof -
  have s: "starts_with_slash P" using assms(1) by (rule valid_path_starts)
  from assms(2) have on: "online b"
    and b1: "b1 = broker_set \<lparr>set_path = P, set_value = V\<rparr> b"
    by (auto simp: apteryx_set_broker [OF s] split: if_splits)
  have g: "db_get (db b1) P = (if length V = 0 then None else Some V)"
    by (simp add: b1 db_get_set)
  have on1: "online b1" using on by (simp add: b1)
  show ?thesis
  proof (cases "V = []")
    case True
    with g assms(3) have "broker_get produce P b1 = ([], b1)"
      by (simp add: broker_get_def)
    with True s on1 show ?thesis
      by (simp add: apteryx_get_def get_ipc_def broker_rpc_def handle_get_response_def)
  next
    case False
    with g have "broker_get produce P b1 = (V, b1)"
      by (simp add: broker_get_def)
    with False s on1 show ?thesis
      by (simp add: apteryx_get_def get_ipc_def broker_rpc_def handle_get_response_def)
  qed
qed

text \<open>
  The test \<open>test_set_get_raw\<close>, eight raw bytes set and read back; and a set of no
  bytes, after which the get finds nothing.
\<close>

theorem set_get_round_trip_witness:
  "apteryx_set (broker_rpc no_produce) fresh ''/entity/zones/private/raw''
     [1, 2, 3, 4, 5, 6, 7, 8] empty_broker =
     Returned (True,
       empty_broker\<lparr>db := [(''/entity/zones/private/raw'', [1, 2, 3, 4, 5, 6, 7, 8])]\<rparr>) \<and>
   apteryx_get (broker_rpc no_produce) fresh ''/entity/zones/private/raw'' (None, 0)
     (empty_broker\<lparr>db := [(''/entity/zones/private/raw'', [1, 2, 3, 4, 5, 6, 7, 8])]\<rparr>) =
     Returned (True, (Some [1, 2, 3, 4, 5, 6, 7, 8], 8),
       empty_broker\<lparr>db := [(''/entity/zones/private/raw'', [1, 2, 3, 4, 5, 6, 7, 8])]\<rparr>) \<and>
   apteryx_get (broker_rpc no_produce) fresh ''/entity/zones/private/raw'' (Some [9], 1)
     empty_broker = Returned (False, (None, 0), empty_broker)"
proof -
  let ?P = "''/entity/zones/private/raw''"
  let ?V = "[1, 2, 3, 4, 5, 6, 7, 8] :: bytes"
  let ?b1 = "empty_broker\<lparr>db := [(?P, ?V)]\<rparr>"
  have v: "valid_path ?P"
    by (simp add: valid_path_def starts_with_slash_def ends_with_slash_def)
  have s: "apteryx_set (broker_rpc no_produce) fresh ?P ?V empty_broker = Returned (True, ?b1)"
    by (simp add: apteryx_set_def set_ipc_def broker_rpc_def handle_ok_response_def
        starts_with_slash_def broker_set_def db_set_def empty_broker_def Let_def)
  have p: "filter (\<lambda>s. sub_pattern s = ?P) (providers ?b1) = []"
    by (simp add: empty_broker_def)
  have s0: "apteryx_set (broker_rpc no_produce) fresh ?P [] empty_broker =
      Returned (True, empty_broker)"
    by (simp add: apteryx_set_def set_ipc_def broker_rpc_def handle_ok_response_def
        starts_with_slash_def broker_set_def db_set_def empty_broker_def Let_def)
  have p0: "filter (\<lambda>s. sub_pattern s = ?P) (providers empty_broker) = []"
    by (simp add: empty_broker_def)
  show ?thesis
    using s set_get_round_trip [OF v s p, where st' = fresh and out = "(None, 0)"]
      set_get_round_trip [OF v s0 p0, where st' = fresh and out = "(Some [9], 1)"]
    by simp
qed

subsection \<open>Watch notification\<close>





end
